theory Spec2Isabelle
  imports Complex_Main
begin

section \<open>Course recommendation by nearest-neighbour search\<close>

text \<open>
  The development follows \<^verbatim>\<open>cosine_faiss_utils.py\<close> and \<^verbatim>\<open>recommender_agent.py\<close>.
  Python exceptions are values of \<open>py_error\<close> and a call that may raise returns
  \<open>py_error + 'a\<close>. The distances an index reports and the similarity scores are numpy
  \<^verbatim>\<open>float32\<close> values, modelled by the type \<open>float32\<close>: every arithmetic operation on them
  rounds its exact result to the nearest \<^verbatim>\<open>float32\<close> and overflows to infinity. The
  sentence-transformer model and the FAISS index are third-party objects: the model is a
  parameter \<open>encoder\<close>, and an index is any value of the record \<open>faiss_index\<close>. The
  embedding of the query is seen by the index only and is a vector of exact reals.
\<close>

subsection \<open>Values\<close>

datatype py_error =
    IndexError
  | AssertionError
  | FileNotFoundError
  | RuntimeError
  | ParserError

type_synonym vec = "real list"

type_synonym encoder = "string \<Rightarrow> vec"

subsection \<open>Single-precision numbers\<close>

text \<open>
  A \<^verbatim>\<open>float32\<close> is a finite number, an infinity or NaN. (The sign of zero is not
  modelled.) A Python \<^verbatim>\<open>float\<close> holds every \<^verbatim>\<open>float32\<close> exactly, so
  \<^verbatim>\<open>float(similarity)\<close> leaves the value as it is.
\<close>

datatype float32 = Finite real | PlusInf | MinusInf | NaN

text \<open>Rounding a real to the nearest integer, a tie to the even one.\<close>

definition round_half_even :: "real \<Rightarrow> int" where
  "round_half_even r =
     (let f = \<lfloor>r\<rfloor>; d = r - of_int f
      in if d < 1 / 2 then f else if 1 / 2 < d then f + 1 else if even f then f else f + 1)"

text \<open>
  The binary exponent used for a magnitude \<open>a\<close>: the largest \<open>e\<close> in \<open>[-126, 127]\<close> with
  \<open>2\<^sup>e \<le> a\<close>, and \<open>-126\<close> (the exponent of the subnormal numbers) when there is none.
\<close>

fun exponent_from :: "nat \<Rightarrow> int \<Rightarrow> real \<Rightarrow> int" where
  "exponent_from 0 e a = e"
| "exponent_from (Suc n) e a = (if 2 powi e \<le> a then e else exponent_from n (e - 1) a)"

definition exponent :: "real \<Rightarrow> int" where
  "exponent a = exponent_from 253 127 a"

text \<open>
  Round to nearest, ties to even, with a significand of 24 bits: the magnitude is rounded to
  a multiple of \<open>2\<^sup>e\<^sup>-\<^sup>2\<^sup>3\<close>, and a result of \<open>2\<^sup>1\<^sup>2\<^sup>8\<close> or more is an infinity.
\<close>

definition round_magnitude :: "real \<Rightarrow> real" where
  "round_magnitude a =
     (let q = 2 powi (exponent a - 23) in q * of_int (round_half_even (a / q)))"

definition round32 :: "real \<Rightarrow> float32" where
  "round32 x =
     (let r = round_magnitude \<bar>x\<bar>
      in if 2 powi 128 \<le> r then (if 0 < x then PlusInf else MinusInf)
         else Finite (if x < 0 then - r else r))"

text \<open>The comparison \<^verbatim>\<open><=\<close> of floating-point numbers: false when either side is NaN.\<close>

fun f32_le :: "float32 \<Rightarrow> float32 \<Rightarrow> bool" where
  "f32_le NaN y = False"
| "f32_le x NaN = False"
| "f32_le MinusInf y = True"
| "f32_le x PlusInf = True"
| "f32_le PlusInf y = False"
| "f32_le x MinusInf = False"
| "f32_le (Finite x) (Finite y) = (x \<le> y)"

text \<open>
  The three elementwise operations of \<^verbatim>\<open>(2 - distances[0] ** 2) / 2\<close> on a \<^verbatim>\<open>float32\<close>
  array: \<^verbatim>\<open>d ** 2\<close>, \<^verbatim>\<open>2 - s\<close> and \<^verbatim>\<open>t / 2\<close>.
\<close>

fun f32_square :: "float32 \<Rightarrow> float32" where
  "f32_square (Finite x) = round32 (x * x)"
| "f32_square PlusInf = PlusInf"
| "f32_square MinusInf = PlusInf"
| "f32_square NaN = NaN"

fun f32_sub_from_2 :: "float32 \<Rightarrow> float32" where
  "f32_sub_from_2 (Finite x) = round32 (2 - x)"
| "f32_sub_from_2 PlusInf = MinusInf"
| "f32_sub_from_2 MinusInf = PlusInf"
| "f32_sub_from_2 NaN = NaN"

fun f32_div_by_2 :: "float32 \<Rightarrow> float32" where
  "f32_div_by_2 (Finite x) = round32 (x / 2)"
| "f32_div_by_2 PlusInf = PlusInf"
| "f32_div_by_2 MinusInf = MinusInf"
| "f32_div_by_2 NaN = NaN"

subsection \<open>Tables and indexes\<close>

text \<open>A row of \<^verbatim>\<open>processed_courses.csv\<close>, with the columns the code reads and writes.\<close>

record course =
  Title :: string
  Offered_by :: string
  Domain_col :: string
  Duration :: string
  Price :: real
  combined_features :: string

type_synonym dataframe = "course list"

type_synonym recommendation = "course \<times> float32"

text \<open>
  An index object as the code uses it: the attribute \<^verbatim>\<open>ntotal\<close> and the method
  \<^verbatim>\<open>search(x, k)\<close> for a single query row, which either raises or returns the first rows
  \<^verbatim>\<open>distances[0]\<close> and \<^verbatim>\<open>indices[0]\<close> of its two result arrays.
\<close>

record faiss_index =
  ntotal :: nat
  search :: "vec \<Rightarrow> int \<Rightarrow> py_error + (float32 list \<times> int list)"

text \<open>What the functions print, one constructor per \<^verbatim>\<open>print\<close> statement modelled.\<close>

datatype console =
    Index_or_DataFrame_is_None
  | Not_properly_initialized
  | Searching_for string
  | Found_recommendations nat
  | Recommendation_line nat string string float32
  | No_recommendations_found

record 'a outcome =
  stdout :: "console list"
  ret :: 'a

subsection \<open>Positional row access\<close>

text \<open>
  \<^verbatim>\<open>df.iloc[idx]\<close>: a negative position counts from the end of the table, and a position
  outside \<open>[-len(df), len(df))\<close> raises \<^verbatim>\<open>IndexError\<close>.
\<close>

definition iloc :: "'a list \<Rightarrow> int \<Rightarrow> py_error + 'a" where
  "iloc df idx =
     (let n = int (length df);
          j = (if idx < 0 then n + idx else idx)
      in if 0 \<le> j \<and> j < n then Inr (df ! nat j) else Inl IndexError)"

subsection \<open>Searching\<close>

text \<open>
  \<^verbatim>\<open>np.linalg.norm(v)\<close> of one row, and the row divided by it. (For the zero vector numpy
  yields NaN components, which the reals do not have; no statement below is about a zero
  embedding.)
\<close>

definition linalg_norm :: "vec \<Rightarrow> real" where
  "linalg_norm v = sqrt (sum_list (map (\<lambda>x. \<bar>x\<bar> ^ 2) v))"

definition l2_normalize :: "vec \<Rightarrow> vec" where
  "l2_normalize v = map (\<lambda>x. x / linalg_norm v) v"

text \<open>\<^verbatim>\<open>similarities = (2 - distances[0] ** 2) / 2\<close>, elementwise.\<close>

definition similarities_of :: "float32 list \<Rightarrow> float32 list" where
  "similarities_of distances = map (\<lambda>d. f32_div_by_2 (f32_sub_from_2 (f32_square d))) distances"

text \<open>
  The loop over \<^verbatim>\<open>zip(indices[0], similarities)\<close>: a hit is kept when
  \<^verbatim>\<open>idx < len(df)\<close>, and its row is read with \<^verbatim>\<open>df.iloc[idx]\<close>.
\<close>

fun prepare_results ::
  "dataframe \<Rightarrow> (int \<times> float32) list \<Rightarrow> recommendation list \<Rightarrow> py_error + recommendation list"
where
  "prepare_results df [] recommendations = Inr recommendations"
| "prepare_results df ((idx, similarity) # hits) recommendations =
     (if idx < int (length df) then
        (case iloc df idx of
           Inl e \<Rightarrow> Inl e
         | Inr course \<Rightarrow> prepare_results df hits (recommendations @ [(course, similarity)]))
      else prepare_results df hits recommendations)"

definition search_faiss_index ::
  "encoder \<Rightarrow> string \<Rightarrow> faiss_index option \<Rightarrow> dataframe option \<Rightarrow> int
     \<Rightarrow> (py_error + recommendation list) outcome"
where
  "search_faiss_index model query index df top_k =
     (case (index, df) of
        (Some ix, Some d) \<Rightarrow>
          (let query_embedding = l2_normalize (model query) in
           case search ix query_embedding top_k of
             Inl e \<Rightarrow> \<lparr>stdout = [], ret = Inl e\<rparr>
           | Inr (distances, indices) \<Rightarrow>
               \<lparr>stdout = [],
                ret = prepare_results d (zip indices (similarities_of distances)) []\<rparr>)
      | _ \<Rightarrow> \<lparr>stdout = [Index_or_DataFrame_is_None], ret = Inr []\<rparr>)"

subsection \<open>The flat L2 index of the FAISS library\<close>

text \<open>
  \<^verbatim>\<open>faiss.IndexFlatL2\<close> is not code of this repository. The instance below records the
  library's documented behaviour, for evaluating the code on concrete corpora: an exhaustive
  search that reports squared Euclidean distances in ascending order (here: hits of equal
  distance in ascending order of position), and fills the result rows up to \<open>k\<close> entries
  with the label \<open>-1\<close> and the largest \<^verbatim>\<open>float32\<close> as distance when fewer than \<open>k\<close>
  vectors are stored. The Python wrapper asserts \<open>k > 0\<close>. The squared distance is the exact
  one, which is what the library computes when no intermediate value needs rounding, as for
  the vectors used below. The general statements hold for every index object and do not use
  this instance.
\<close>

definition FLT_MAX :: real where
  "FLT_MAX = 340282346638528859811704183484516925440"

definition fvec_L2sqr :: "vec \<Rightarrow> vec \<Rightarrow> real" where
  "fvec_L2sqr x y = sum_list (map (\<lambda>(a, b). (a - b) ^ 2) (zip x y))"

definition IndexFlatL2_search ::
  "vec list \<Rightarrow> vec \<Rightarrow> int \<Rightarrow> py_error + (float32 list \<times> int list)"
where
  "IndexFlatL2_search xb x k =
     (if k \<le> 0 then Inl AssertionError
      else
        let found = take (nat k)
              (sort_key fst (zip (map (fvec_L2sqr x) xb) (map int [0..<length xb])));
            hits = found @ replicate (nat k - length found) (FLT_MAX, - 1)
        in Inr (map (\<lambda>h. Finite (fst h)) hits, map snd hits))"

definition IndexFlatL2 :: "vec list \<Rightarrow> faiss_index" where
  "IndexFlatL2 xb = \<lparr>ntotal = length xb, search = IndexFlatL2_search xb\<rparr>"

subsection \<open>The recommender\<close>

text \<open>
  The two persisted artifacts. Reading \<^verbatim>\<open>course_index.faiss\<close> with
  \<^verbatim>\<open>faiss.read_index\<close> and \<^verbatim>\<open>processed_courses.csv\<close> with \<^verbatim>\<open>pd.read_csv\<close> either
  raises or yields the stored object. (FAISS raises \<^verbatim>\<open>RuntimeError\<close> for a file it cannot
  open; pandas raises \<^verbatim>\<open>FileNotFoundError\<close> for a missing file.)
\<close>

datatype 'a artifact = Missing | Unreadable | Stored 'a

record files =
  course_index_faiss :: "faiss_index artifact"
  processed_courses_csv :: "dataframe artifact"

definition read_index :: "faiss_index artifact \<Rightarrow> py_error + faiss_index" where
  "read_index f =
     (case f of
        Missing \<Rightarrow> Inl RuntimeError
      | Unreadable \<Rightarrow> Inl RuntimeError
      | Stored ix \<Rightarrow> Inr ix)"

definition read_csv :: "dataframe artifact \<Rightarrow> py_error + dataframe" where
  "read_csv f =
     (case f of
        Missing \<Rightarrow> Inl FileNotFoundError
      | Unreadable \<Rightarrow> Inl ParserError
      | Stored d \<Rightarrow> Inr d)"

text \<open>
  \<^verbatim>\<open>load_faiss_index\<close>: the \<^verbatim>\<open>try\<close> block reads the index, then the table, and returns
  both; the handler for \<^verbatim>\<open>FileNotFoundError\<close> and the handler for every other
  \<^verbatim>\<open>Exception\<close> both return \<^verbatim>\<open>(None, None)\<close>.
\<close>

definition load_faiss_index :: "files \<Rightarrow> faiss_index option \<times> dataframe option" where
  "load_faiss_index fs =
     (case read_index (course_index_faiss fs) of
        Inl e \<Rightarrow> (if e = FileNotFoundError then (None, None) else (None, None))
      | Inr ix \<Rightarrow>
          (case read_csv (processed_courses_csv fs) of
             Inl e \<Rightarrow> (if e = FileNotFoundError then (None, None) else (None, None))
           | Inr d \<Rightarrow> (Some ix, Some d)))"

record CourseRecommender =
  self_index :: "faiss_index option"
  self_df :: "dataframe option"

text \<open>\<^verbatim>\<open>CourseRecommender.__init__\<close>: \<^verbatim>\<open>self.index, self.df = load_faiss_index()\<close>.\<close>

definition init :: "files \<Rightarrow> CourseRecommender" where
  "init fs = (case load_faiss_index fs of (ix, d) \<Rightarrow> \<lparr>self_index = ix, self_df = d\<rparr>)"

definition is_ready :: "CourseRecommender \<Rightarrow> bool" where
  "is_ready self = (self_index self \<noteq> None \<and> self_df self \<noteq> None)"

text \<open>The lines printed for the recommendations found, numbered from \<open>i\<close>.\<close>

fun recommendation_lines :: "nat \<Rightarrow> recommendation list \<Rightarrow> console list" where
  "recommendation_lines i [] = []"
| "recommendation_lines i ((course, score) # recommendations) =
     Recommendation_line i (Title course) (Offered_by course) score
       # recommendation_lines (Suc i) recommendations"

definition get_recommendations ::
  "encoder \<Rightarrow> CourseRecommender \<Rightarrow> string \<Rightarrow> int \<Rightarrow> (py_error + recommendation list) outcome"
where
  "get_recommendations model self query top_k =
     (if self_index self = None \<or> self_df self = None then
        \<lparr>stdout = [Not_properly_initialized], ret = Inr []\<rparr>
      else
        let found = search_faiss_index model query (self_index self) (self_df self) top_k;
            printed = Searching_for query # stdout found
        in case ret found of
             Inl e \<Rightarrow> \<lparr>stdout = printed, ret = Inl e\<rparr>
           | Inr recommendations \<Rightarrow>
               \<lparr>stdout = printed @
                  (if recommendations \<noteq> [] then
                     Found_recommendations (length recommendations)
                       # recommendation_lines 1 recommendations
                   else [No_recommendations_found]),
                ret = Inr recommendations\<rparr>)"

subsection \<open>Cleaning the price column\<close>

text \<open>
  A Python \<^verbatim>\<open>str\<close> is a sequence of Unicode code points; \<open>codepoints\<close> embeds an ASCII
  literal.
\<close>

type_synonym str = "nat list"

definition codepoints :: "string \<Rightarrow> str" where
  "codepoints s = map of_char s"

text \<open>
  \<^verbatim>\<open>re.sub(r'[,/-]', '', x)\<close>: the pattern is a character class, so every character of
  the text that belongs to the class is removed.
\<close>

fun re_sub_class :: "str \<Rightarrow> str \<Rightarrow> str" where
  "re_sub_class cls [] = []"
| "re_sub_class cls (c # x) =
     (if c \<in> set cls then re_sub_class cls x else c # re_sub_class cls x)"

text \<open>
  \<^verbatim>\<open>str.strip()\<close> removes leading and trailing whitespace: the code points for which
  \<^verbatim>\<open>str.isspace\<close> holds, which are U+0009 to U+000D, U+001C to U+0020, U+0085, U+00A0,
  U+1680, U+2000 to U+200A, U+2028, U+2029, U+202F, U+205F and U+3000.
\<close>

definition isspace :: "nat \<Rightarrow> bool" where
  "isspace c =
     ((0x09 \<le> c \<and> c \<le> 0x0D) \<or> (0x1C \<le> c \<and> c \<le> 0x20) \<or> c = 0x85 \<or> c = 0xA0
      \<or> c = 0x1680 \<or> (0x2000 \<le> c \<and> c \<le> 0x200A) \<or> c = 0x2028 \<or> c = 0x2029
      \<or> c = 0x202F \<or> c = 0x205F \<or> c = 0x3000)"

definition str_strip :: "str \<Rightarrow> str" where
  "str_strip x = rev (dropWhile isspace (rev (dropWhile isspace x)))"

text \<open>
  A cell of the column \<^verbatim>\<open>Price\<close> as \<^verbatim>\<open>pd.read_csv\<close> delivers it: absent (NaN), a text,
  or a value of the type pandas inferred for the column from its texts (an integer, a float,
  a boolean).
\<close>

datatype 'v cell = Null | Text str | Value 'v

text \<open>
  The three statements on \<^verbatim>\<open>df['Price']\<close>, for one cell: \<^verbatim>\<open>fillna('0')\<close>;
  \<^verbatim>\<open>astype(str)\<close>, the substitution and \<^verbatim>\<open>strip\<close>; and
  \<^verbatim>\<open>pd.to_numeric(..., errors='coerce').fillna(0)\<close>. Two functions of Python and pandas
  are parameters: \<open>to_str\<close> is \<^verbatim>\<open>str\<close> on the inferred values, and \<open>to_numeric\<close> is the
  parser, which yields \<open>None\<close> where the coercion fails (NaN).
\<close>

definition clean_price :: "(str \<Rightarrow> real option) \<Rightarrow> ('v \<Rightarrow> str) \<Rightarrow> 'v cell \<Rightarrow> real" where
  "clean_price to_numeric to_str cell =
     (let filled = (case cell of Null \<Rightarrow> Text (codepoints ''0'') | _ \<Rightarrow> cell);
          x = (case filled of
                 Text t \<Rightarrow> t
               | Value v \<Rightarrow> to_str v
               | Null \<Rightarrow> codepoints ''nan'');
          cleaned = str_strip (re_sub_class (codepoints '',/-'') x)
      in case to_numeric cleaned of None \<Rightarrow> 0 | Some v \<Rightarrow> v)"

text \<open>
  The cleaning as the specification words it, for comparison with \<open>clean_price\<close>: from the
  raw text only commas and a trailing \<^verbatim>\<open>/-\<close> are removed, the remainder is coerced to a
  number, and the price is 0 when the text is absent or the coercion fails.
\<close>

definition strip_trailing_slash_dash :: "str \<Rightarrow> str" where
  "strip_trailing_slash_dash x =
     (if 2 \<le> length x \<and> drop (length x - 2) x = codepoints ''/-''
      then take (length x - 2) x else x)"

definition spec_clean_price :: "(str \<Rightarrow> real option) \<Rightarrow> str option \<Rightarrow> real" where
  "spec_clean_price to_numeric raw =
     (case raw of
        None \<Rightarrow> 0
      | Some x \<Rightarrow>
          (case to_numeric (strip_trailing_slash_dash (filter (\<lambda>c. c \<noteq> 0x2C) x)) of
             None \<Rightarrow> 0
           | Some v \<Rightarrow> v))"

text \<open>
  A parser for the plain decimal texts of the examples: a non-empty text of ASCII digits has
  its decimal value. (On every text it is applied to in this development it agrees with
  \<^verbatim>\<open>pd.to_numeric\<close>; signs, fractions and exponents are not covered.)
\<close>

fun decimal_value :: "nat \<Rightarrow> str \<Rightarrow> nat option" where
  "decimal_value acc [] = Some acc"
| "decimal_value acc (c # x) =
     (if 0x30 \<le> c \<and> c \<le> 0x39 then decimal_value (10 * acc + (c - 0x30)) x else None)"

definition to_numeric_decimal :: "str \<Rightarrow> real option" where
  "to_numeric_decimal x =
     (if x = [] then None else map_option real (decimal_value 0 x))"

subsection \<open>Sample data\<close>

definition intro_to_python :: course where
  "intro_to_python =
     \<lparr>Title = ''Intro to Python'', Offered_by = ''Acme'', Domain_col = ''Programming'',
      Duration = ''10 hours'', Price = 1000,
      combined_features = ''Intro to Python Acme Programming 10 hours 1000''\<rparr>"

definition advanced_leadership :: course where
  "advanced_leadership =
     \<lparr>Title = ''Advanced Leadership'', Offered_by = ''Acme'', Domain_col = ''Management'',
      Duration = ''20 hours'', Price = 5000,
      combined_features = ''Advanced Leadership Acme Management 20 hours 5000''\<rparr>"

definition data_analytics :: course where
  "data_analytics =
     \<lparr>Title = ''Data Analytics'', Offered_by = ''Acme'', Domain_col = ''Data'',
      Duration = ''15 hours'', Price = 0,
      combined_features = ''Data Analytics Acme Data 15 hours 0''\<rparr>"

text \<open>A stand-in for the sentence-transformer model: every text is embedded as \<open>(1, 0)\<close>.\<close>

definition demo_model :: encoder where
  "demo_model q = [1, 0]"

section \<open>Properties\<close>

subsection \<open>Row access and the result loop\<close>

lemma iloc_in_range:
  assumes "- int (length df) \<le> idx" and "idx < int (length df)"
  shows "\<exists>c. iloc df idx = Inr c"
  using assms by (simp add: iloc_def Let_def)

lemma iloc_minus_one: "df \<noteq> [] \<Longrightarrow> iloc df (- 1) = Inr (last df)"
  by (simp add: iloc_def Let_def last_conv_nth nat_diff_distrib')

text \<open>
  When no reported position lies below \<open>-len(df)\<close> the loop does not raise: it appends, in
  the order reported, one result for every hit that passes the test \<^verbatim>\<open>idx < len(df)\<close>.
\<close>

lemma prepare_results_returns:
  assumes "\<forall>(i, s) \<in> set hits. - int (length df) \<le> i"
  shows "\<exists>rows. prepare_results df hits acc = Inr (acc @ rows)
           \<and> list_all2 (\<lambda>(c, s) (i, s'). iloc df i = Inr c \<and> s = s') rows
                (filter (\<lambda>(i, s). i < int (length df)) hits)"
  using assms
proof (induction hits arbitrary: acc)
  case Nil
  then show ?case by simp
next
  case (Cons h hits)
  obtain i s where h: "h = (i, s)" by (cases h)
  from Cons.prems have rest: "\<forall>(i, s) \<in> set hits. - int (length df) \<le> i" by simp
  show ?case
  proof (cases "i < int (length df)")
    case False
    with Cons.IH [OF rest, of acc] h show ?thesis by simp
  next
    case True
    from Cons.prems h have "- int (length df) \<le> i" by simp
    with True obtain c where c: "iloc df i = Inr c" using iloc_in_range by blast
    from Cons.IH [OF rest, of "acc @ [(c, s)]"] obtain rows where
      r: "prepare_results df hits (acc @ [(c, s)]) = Inr ((acc @ [(c, s)]) @ rows)"
      and a: "list_all2 (\<lambda>(c, s) (i, s'). iloc df i = Inr c \<and> s = s') rows
                (filter (\<lambda>(i, s). i < int (length df)) hits)"
      by blast
    have "prepare_results df (h # hits) acc = Inr (acc @ ((c, s) # rows))"
      using r h True c by simp
    moreover have "list_all2 (\<lambda>(c, s) (i, s'). iloc df i = Inr c \<and> s = s') ((c, s) # rows)
                (filter (\<lambda>(i, s). i < int (length df)) (h # hits))"
      using a h True c by simp
    ultimately show ?thesis by blast
  qed
qed

lemma l2_normalize_unit: "l2_normalize [1, 0] = [1, 0]"
  by (simp add: l2_normalize_def linalg_norm_def)

subsection \<open>Rounding is monotone\<close>

lemma round_half_even_mono:
  assumes "r \<le> s"
  shows "round_half_even r \<le> round_half_even s"
proof (cases "\<lfloor>r\<rfloor> = \<lfloor>s\<rfloor>")
  case True
  with assms show ?thesis by (auto simp: round_half_even_def Let_def)
next
  case False
  with assms have "\<lfloor>r\<rfloor> + 1 \<le> \<lfloor>s\<rfloor>" using floor_mono [OF assms] by linarith
  moreover have "round_half_even r \<le> \<lfloor>r\<rfloor> + 1" by (auto simp: round_half_even_def Let_def)
  moreover have "\<lfloor>s\<rfloor> \<le> round_half_even s" by (auto simp: round_half_even_def Let_def)
  ultimately show ?thesis by linarith
qed

lemma round_half_even_of_int: "round_half_even (of_int n) = n"
  by (simp add: round_half_even_def)

lemma exponent_from_bounds: "e - int n \<le> exponent_from n e a \<and> exponent_from n e a \<le> e"
  by (induction n e a rule: exponent_from.induct) auto

lemma exponent_from_lower:
  "e - int n < exponent_from n e a \<Longrightarrow> 2 powi exponent_from n e a \<le> a"
  by (induction n e a rule: exponent_from.induct) (auto split: if_splits)

lemma exponent_from_upper:
  "exponent_from n e a < e \<Longrightarrow> a < 2 powi (exponent_from n e a + 1)"
proof (induction n e a rule: exponent_from.induct)
  case (1 e a)
  then show ?case by simp
next
  case (2 n e a)
  show ?case
  proof (cases "2 powi e \<le> a")
    case True
    with "2.prems" show ?thesis by simp
  next
    case False
    show ?thesis
    proof (cases "exponent_from n (e - 1) a < e - 1")
      case True
      with "2.IH" False show ?thesis by simp
    next
      case stopped: False
      with exponent_from_bounds [of "e - 1" n a] have "exponent_from n (e - 1) a = e - 1"
        by simp
      with False show ?thesis by simp
    qed
  qed
qed

lemma exponent_range: "- 126 \<le> exponent a" "exponent a \<le> 127"
  using exponent_from_bounds [of 127 253 a] by (simp_all add: exponent_def)

lemma exponent_lower: "- 126 < exponent a \<Longrightarrow> 2 powi exponent a \<le> a"
  using exponent_from_lower [of 127 253 a] by (simp add: exponent_def)

lemma exponent_upper: "exponent a < 127 \<Longrightarrow> a < 2 powi (exponent a + 1)"
  using exponent_from_upper [of 253 127 a] by (simp add: exponent_def)

lemma exponent_mono:
  assumes "a \<le> b"
  shows "exponent a \<le> exponent b"
proof (rule ccontr)
  assume "\<not> exponent a \<le> exponent b"
  then have lt: "exponent b < exponent a" by simp
  with exponent_range [of b] have "- 126 < exponent a" by linarith
  then have 1: "2 powi exponent a \<le> a" by (rule exponent_lower)
  from lt exponent_range [of a] have "exponent b < 127" by linarith
  then have "b < 2 powi (exponent b + 1)" by (rule exponent_upper)
  also from lt have "(2::real) powi (exponent b + 1) \<le> 2 powi exponent a"
    by (intro power_int_increasing) simp_all
  finally show False using 1 assms by linarith
qed

lemma round_magnitude_nonneg:
  assumes "0 \<le> a"
  shows "0 \<le> round_magnitude a"
proof -
  from assms have "of_int 0 \<le> a / 2 powi (exponent a - 23)" by simp
  from round_half_even_mono [OF this]
  have "0 \<le> round_half_even (a / 2 powi (exponent a - 23))"
    by (simp only: round_half_even_of_int)
  then show ?thesis by (simp add: round_magnitude_def Let_def)
qed

lemma round_magnitude_le_next_power:
  assumes "a < 2 powi (exponent a + 1)"
  shows "round_magnitude a \<le> 2 powi (exponent a + 1)"
proof -
  let ?q = "(2::real) powi (exponent a - 23)"
  have split: "(2::real) powi (exponent a + 1) = ?q * 2 ^ 24"
    by (simp add: power_int_add power_int_diff field_simps)
  with assms have "a / ?q \<le> of_int (2 ^ 24)" by (simp add: field_simps)
  from round_half_even_mono [OF this] have "round_half_even (a / ?q) \<le> 2 ^ 24"
    by (simp only: round_half_even_of_int)
  then have "of_int (round_half_even (a / ?q)) \<le> (2 ^ 24 :: real)"
    by (metis of_int_le_iff of_int_numeral of_int_power)
  then have "?q * of_int (round_half_even (a / ?q)) \<le> ?q * 2 ^ 24"
    by (intro mult_left_mono) simp_all
  with split show ?thesis by (simp add: round_magnitude_def Let_def)
qed

lemma round_magnitude_ge_power:
  assumes "2 powi exponent a \<le> a"
  shows "2 powi exponent a \<le> round_magnitude a"
proof -
  let ?q = "(2::real) powi (exponent a - 23)"
  have split: "(2::real) powi exponent a = ?q * 2 ^ 23"
    by (simp add: power_int_diff field_simps)
  with assms have "of_int (2 ^ 23) \<le> a / ?q" by (simp add: field_simps)
  from round_half_even_mono [OF this] have "2 ^ 23 \<le> round_half_even (a / ?q)"
    by (simp only: round_half_even_of_int)
  then have "(2 ^ 23 :: real) \<le> of_int (round_half_even (a / ?q))"
    by (metis of_int_le_iff of_int_numeral of_int_power)
  then have "?q * 2 ^ 23 \<le> ?q * of_int (round_half_even (a / ?q))"
    by (intro mult_left_mono) simp_all
  with split show ?thesis by (simp add: round_magnitude_def Let_def)
qed

text \<open>
  Within one binade the rounding is that of \<open>round_half_even\<close>; across binades the power
  of two between the two magnitudes separates the results.
\<close>

lemma round_magnitude_mono:
  assumes "a \<le> b"
  shows "round_magnitude a \<le> round_magnitude b"
proof (cases "exponent a = exponent b")
  case True
  let ?q = "(2::real) powi (exponent b - 23)"
  from assms have "a / ?q \<le> b / ?q" by (simp add: divide_right_mono)
  from round_half_even_mono [OF this]
  have "?q * of_int (round_half_even (a / ?q)) \<le> ?q * of_int (round_half_even (b / ?q))"
    by (intro mult_left_mono) simp_all
  with True show ?thesis by (simp add: round_magnitude_def Let_def)
next
  case False
  with exponent_mono [OF assms] have lt: "exponent a < exponent b" by simp
  with exponent_range [of b] have "exponent a < 127" by linarith
  then have "a < 2 powi (exponent a + 1)" by (rule exponent_upper)
  then have "round_magnitude a \<le> 2 powi (exponent a + 1)"
    by (rule round_magnitude_le_next_power)
  also from lt have "(2::real) powi (exponent a + 1) \<le> 2 powi exponent b"
    by (intro power_int_increasing) simp_all
  also have "2 powi exponent b \<le> round_magnitude b"
  proof (rule round_magnitude_ge_power)
    from lt exponent_range [of a] have "- 126 < exponent b" by linarith
    then show "2 powi exponent b \<le> b" by (rule exponent_lower)
  qed
  finally show ?thesis .
qed

lemma round_magnitude_zero: "round_magnitude 0 = 0"
  by (simp add: round_magnitude_def round_half_even_def)

lemma round32_mono:
  assumes "x \<le> y"
  shows "f32_le (round32 x) (round32 y)"
proof -
  have nn: "0 \<le> round_magnitude \<bar>z\<bar>" for z by (rule round_magnitude_nonneg) simp
  consider "0 \<le> x" | "x < 0" "0 \<le> y" | "y < 0" by linarith
  then show ?thesis
  proof cases
    case 1
    with assms have "round_magnitude \<bar>x\<bar> \<le> round_magnitude \<bar>y\<bar>"
      by (intro round_magnitude_mono) simp
    with 1 assms show ?thesis
      by (cases "x = 0") (auto simp: round32_def Let_def round_magnitude_zero)
  next
    case 2
    with nn [of x] nn [of y] show ?thesis
      by (auto simp: round32_def Let_def round_magnitude_zero)
  next
    case 3
    with assms have "round_magnitude \<bar>y\<bar> \<le> round_magnitude \<bar>x\<bar>"
      by (intro round_magnitude_mono) simp
    with 3 assms show ?thesis
      by (auto simp: round32_def Let_def)
  qed
qed

lemma round32_not_NaN: "round32 x \<noteq> NaN"
  by (simp add: round32_def Let_def)

lemma f32_le_MinusInf: "f32_le MinusInf y = (y \<noteq> NaN)"
  by (cases y) simp_all

lemma f32_le_PlusInf: "f32_le x PlusInf = (x \<noteq> NaN)"
  by (cases x) simp_all

lemma f32_sub_from_2_antimono:
  assumes "f32_le x y"
  shows "f32_le (f32_sub_from_2 y) (f32_sub_from_2 x)"
  using assms
  by (cases x; cases y)
    (simp_all add: round32_mono round32_not_NaN f32_le_MinusInf f32_le_PlusInf)

lemma f32_div_by_2_mono:
  assumes "f32_le x y"
  shows "f32_le (f32_div_by_2 x) (f32_div_by_2 y)"
  using assms
  by (cases x; cases y)
    (simp_all add: round32_mono round32_not_NaN f32_le_MinusInf f32_le_PlusInf)

lemma f32_square_mono:
  assumes "0 \<le> x" and "x \<le> y"
  shows "f32_le (f32_square (Finite x)) (f32_square (Finite y))"
proof -
  from assms have "x * x \<le> y * y" by (simp add: mult_mono)
  then show ?thesis by (simp add: round32_mono)
qed

text \<open>A larger distance, of two that are not negative, never gets the larger score.\<close>

lemma similarity_antimono:
  assumes "0 \<le> d" and "d \<le> d'"
  shows "f32_le (f32_div_by_2 (f32_sub_from_2 (f32_square (Finite d'))))
           (f32_div_by_2 (f32_sub_from_2 (f32_square (Finite d))))"
  by (intro f32_div_by_2_mono f32_sub_from_2_antimono f32_square_mono assms)

subsection \<open>Scores of some distances\<close>

lemma similarities_of_samples:
  "similarities_of [Finite 0] = [Finite 1]"
  "similarities_of [Finite 2] = [Finite (- 1)]"
  "similarities_of [Finite 4] = [Finite (- 7)]"
  "similarities_of [Finite FLT_MAX] = [MinusInf]"
  "similarities_of [Finite (1 / 2 ^ 18)] = [Finite 1]"
  "similarities_of [Finite (1 / 2 ^ 16)] = [Finite 1]"
  by (simp_all add: similarities_of_def round32_def round_magnitude_def round_half_even_def
      exponent_def eval_nat_numeral FLT_MAX_def)

lemma list_all2_same_scores:
  assumes "list_all2 (\<lambda>(c, s) (i, s'). iloc df i = Inr c \<and> s = s') rows kept"
  shows "map snd rows = map snd kept"
  using assms by (induction rows kept rule: list_all2_induct) auto

subsection \<open>The flat index on the sample data\<close>

lemma flat_search_two_courses_k3:
  "search (IndexFlatL2 [[1, 0], [0, 1]]) (l2_normalize (demo_model q)) 3
     = Inr ([Finite 0, Finite 2, Finite FLT_MAX], [0, 1, - 1])"
  by (simp add: IndexFlatL2_def IndexFlatL2_search_def fvec_L2sqr_def l2_normalize_unit
      demo_model_def)

lemma flat_search_three_courses_k4:
  "search (IndexFlatL2 [[0, 1], [1, 0], [0, 1]]) (l2_normalize (demo_model q)) 4
     = Inr ([Finite 0, Finite 2, Finite 2, Finite FLT_MAX], [1, 0, 2, - 1])"
  by (simp add: IndexFlatL2_def IndexFlatL2_search_def fvec_L2sqr_def l2_normalize_unit
      demo_model_def upt_rec)

lemma flat_search_near_duplicates_k2:
  "search (IndexFlatL2 [[1, 1 / 256], [1, 1 / 512]]) (l2_normalize (demo_model q)) 2
     = Inr ([Finite (1 / 2 ^ 18), Finite (1 / 2 ^ 16)], [1, 0])"
  by (simp add: IndexFlatL2_def IndexFlatL2_search_def fvec_L2sqr_def l2_normalize_unit
      demo_model_def upt_rec power2_eq_square)

subsection \<open>The position \<open>-1\<close> passes the validity test\<close>

text \<open>
  Claim C10. Let the metadata table be non-empty and let the index report the position
  \<open>-1\<close> for the hit number \<open>j\<close> (every reported position being \<open>-1\<close> or non-negative, as
  FAISS labels are). Then the test \<^verbatim>\<open>idx < len(df)\<close> accepts that hit, the search returns
  normally, and the returned list contains the last row of the table paired with the score
  computed from that hit's distance: the position is not skipped.
\<close>

theorem minus_one_hit_returns_last_row:
  assumes "df \<noteq> []"
    and "search ix (l2_normalize (model query)) top_k = Inr (D, I)"
    and "length D = length I"
    and "\<forall>i \<in> set I. - 1 \<le> i"
    and "j < length I" and "I ! j = - 1"
  shows "\<exists>recs. ret (search_faiss_index model query (Some ix) (Some df) top_k) = Inr recs
           \<and> (last df, f32_div_by_2 (f32_sub_from_2 (f32_square (D ! j)))) \<in> set recs"
proof -
  let ?hits = "zip I (similarities_of D)"
  let ?kept = "filter (\<lambda>(i, s). i < int (length df)) ?hits"
  let ?score = "f32_div_by_2 (f32_sub_from_2 (f32_square (D ! j)))"
  from assms(1) have len: "1 \<le> int (length df)" by (cases df) simp_all
  have "\<forall>(i, s) \<in> set ?hits. - int (length df) \<le> i"
  proof (clarify)
    fix i s assume "(i, s) \<in> set ?hits"
    then have "i \<in> set I" by (rule set_zip_leftD)
    with assms(4) len show "- int (length df) \<le> i" by force
  qed
  from prepare_results_returns [OF this, of "[]"] obtain rows where
    r: "prepare_results df ?hits [] = Inr rows"
    and a: "list_all2 (\<lambda>(c, s) (i, s'). iloc df i = Inr c \<and> s = s') rows ?kept"
    by auto
  have "?hits ! j = (- 1, ?score)"
    using assms(3,5,6) by (simp add: similarities_of_def)
  moreover have "j < length ?hits" using assms(3,5) by (simp add: similarities_of_def)
  ultimately have "(- 1, ?score) \<in> set ?hits"
    by (metis nth_mem)
  with len have "(- 1, ?score) \<in> set ?kept" by simp
  then obtain n where n: "n < length ?kept" "?kept ! n = (- 1, ?score)"
    unfolding in_set_conv_nth by blast
  from a have l: "length rows = length ?kept" by (rule list_all2_lengthD)
  from a n(1) have "(\<lambda>(c, s) (i, s'). iloc df i = Inr c \<and> s = s') (rows ! n) (?kept ! n)"
    by (simp add: list_all2_conv_all_nth)
  with n(2) have "iloc df (- 1) = Inr (fst (rows ! n)) \<and> snd (rows ! n) = ?score"
    by (simp add: case_prod_beta)
  with iloc_minus_one [OF assms(1)] have "rows ! n = (last df, ?score)"
    by (simp add: prod_eq_iff)
  with n(1) l have "(last df, ?score) \<in> set rows"
    by (metis nth_mem)
  with r assms(2) show ?thesis by (simp add: search_faiss_index_def)
qed

text \<open>
  Two courses and \<open>k = 3\<close>: the flat index reports the third hit at position \<open>-1\<close> with
  the largest \<^verbatim>\<open>float32\<close> as distance, and the second course, the last row, is returned
  for it, with the score the code computes from that distance, minus infinity.
\<close>

theorem minus_one_hit_returns_last_row_witness:
  "search (IndexFlatL2 [[1, 0], [0, 1]]) (l2_normalize (demo_model ''python programming'')) 3
     = Inr ([Finite 0, Finite 2, Finite FLT_MAX], [0, 1, - 1])
   \<and> (\<exists>recs. ret (search_faiss_index demo_model ''python programming''
                   (Some (IndexFlatL2 [[1, 0], [0, 1]]))
                   (Some [intro_to_python, advanced_leadership]) 3) = Inr recs
           \<and> (advanced_leadership, MinusInf) \<in> set recs)"
proof -
  have s: "search (IndexFlatL2 [[1, 0], [0, 1]])
             (l2_normalize (demo_model ''python programming'')) 3
           = Inr ([Finite 0, Finite 2, Finite FLT_MAX], [0, 1, - 1])"
    by (rule flat_search_two_courses_k3)
  have m: "f32_div_by_2 (f32_sub_from_2 (f32_square (Finite FLT_MAX))) = MinusInf"
    using similarities_of_samples(4) by (simp add: similarities_of_def)
  from minus_one_hit_returns_last_row
    [where df = "[intro_to_python, advanced_leadership]" and j = 2
       and model = demo_model and query = "''python programming''", OF _ s]
  show ?thesis using s m by simp
qed

subsection \<open>Ranking\<close>

text \<open>
  Claim C5, as the code has it. Let the index report its hits in ascending order of
  distance, with finite distances that are not negative (squared distances), and no
  position below \<open>-len(df)\<close>. Then the search returns normally; its results are, in the
  order reported, the hits that pass the test \<^verbatim>\<open>idx < len(df)\<close>, each with the row found at
  its position; and the scores are non-increasing along the list: every result has a score
  greater than or equal to the score of every later one, the next one in particular.
  Nothing is said of the order of results with equal scores.
\<close>

theorem results_ranked:
  assumes "search ix (l2_normalize (model query)) top_k = Inr (map Finite ds, I)"
    and "length ds = length I"
    and "\<forall>d \<in> set ds. 0 \<le> d"
    and "sorted ds"
    and "\<forall>i \<in> set I. - int (length df) \<le> i"
  shows "\<exists>recs. ret (search_faiss_index model query (Some ix) (Some df) top_k) = Inr recs
           \<and> list_all2 (\<lambda>(c, s) (i, s'). iloc df i = Inr c \<and> s = s') recs
                (filter (\<lambda>(i, s). i < int (length df))
                   (zip I (similarities_of (map Finite ds))))
           \<and> sorted_wrt (\<lambda>s s'. f32_le s' s) (map snd recs)
           \<and> (\<forall>n. Suc n < length recs \<longrightarrow> f32_le (snd (recs ! Suc n)) (snd (recs ! n)))"
proof -
  let ?sim = "\<lambda>d. f32_div_by_2 (f32_sub_from_2 (f32_square (Finite d)))"
  let ?hits = "zip I (similarities_of (map Finite ds))"
  let ?kept = "filter (\<lambda>(i, s). i < int (length df)) ?hits"
  have "\<forall>(i, s) \<in> set ?hits. - int (length df) \<le> i"
    using assms(5) by (auto dest: set_zip_leftD)
  from prepare_results_returns [OF this, of "[]"] obtain recs where
    r: "prepare_results df ?hits [] = Inr recs"
    and a: "list_all2 (\<lambda>(c, s) (i, s'). iloc df i = Inr c \<and> s = s') recs ?kept"
    by auto
  have "sorted_wrt (\<lambda>d d'. f32_le (?sim d') (?sim d)) ds"
  proof (rule sorted_wrt_mono_rel [of ds "(\<le>)"])
    fix d d' assume "d \<in> set ds" and "d \<le> d'"
    with assms(3) show "f32_le (?sim d') (?sim d)"
      by (intro similarity_antimono) simp_all
  next
    from assms(4) show "sorted_wrt (\<le>) ds" by simp
  qed
  then have "sorted_wrt (\<lambda>s s'. f32_le s' s) (similarities_of (map Finite ds))"
    by (simp add: similarities_of_def sorted_wrt_map comp_def)
  moreover have "map snd ?hits = similarities_of (map Finite ds)"
    using assms(2) by (simp add: similarities_of_def)
  ultimately have "sorted_wrt (\<lambda>s s'. f32_le s' s) (map snd ?hits)" by simp
  then have "sorted_wrt (\<lambda>h h'. f32_le (snd h') (snd h)) ?hits"
    by (simp add: sorted_wrt_map)
  then have k: "sorted_wrt (\<lambda>h h'. f32_le (snd h') (snd h)) ?kept"
    by (rule sorted_wrt_filter)
  from a have "map snd recs = map snd ?kept" by (rule list_all2_same_scores)
  with k have s: "sorted_wrt (\<lambda>s s'. f32_le s' s) (map snd recs)"
    by (simp add: sorted_wrt_map)
  have "\<forall>n. Suc n < length recs \<longrightarrow> f32_le (snd (recs ! Suc n)) (snd (recs ! n))"
  proof (intro allI impI)
    fix n assume n: "Suc n < length recs"
    with s have "f32_le (map snd recs ! Suc n) (map snd recs ! n)"
      by (simp only: sorted_wrt_iff_nth_less length_map)
    with n show "f32_le (snd (recs ! Suc n)) (snd (recs ! n))" by simp
  qed
  with r a s assms(1) show ?thesis by (simp add: search_faiss_index_def)
qed

text \<open>
  Three courses and \<open>k = 4\<close>: the scores returned are \<open>1\<close>, \<open>-1\<close>, \<open>-1\<close> and minus
  infinity.
\<close>

theorem results_ranked_witness:
  "search (IndexFlatL2 [[0, 1], [1, 0], [0, 1]])
     (l2_normalize (demo_model ''python programming'')) 4
     = Inr (map Finite [0, 2, 2, FLT_MAX], [1, 0, 2, - 1])
   \<and> (\<exists>recs. ret (search_faiss_index demo_model ''python programming''
                   (Some (IndexFlatL2 [[0, 1], [1, 0], [0, 1]]))
                   (Some [advanced_leadership, intro_to_python, data_analytics]) 4) = Inr recs
           \<and> list_all2
                (\<lambda>(c, s) (i, s').
                    iloc [advanced_leadership, intro_to_python, data_analytics] i = Inr c
                    \<and> s = s')
                recs
                (filter (\<lambda>(i, s). i < 3)
                   (zip [1, 0, 2, - 1] (similarities_of (map Finite [0, 2, 2, FLT_MAX]))))
           \<and> sorted_wrt (\<lambda>s s'. f32_le s' s) (map snd recs)
           \<and> (\<forall>n. Suc n < length recs \<longrightarrow> f32_le (snd (recs ! Suc n)) (snd (recs ! n))))"
proof -
  have s: "search (IndexFlatL2 [[0, 1], [1, 0], [0, 1]])
             (l2_normalize (demo_model ''python programming'')) 4
           = Inr (map Finite [0, 2, 2, FLT_MAX], [1, 0, 2, - 1])"
    using flat_search_three_courses_k4 by simp
  have p: "0 \<le> FLT_MAX" "2 \<le> FLT_MAX" by (simp_all add: FLT_MAX_def)
  from results_ranked
    [where df = "[advanced_leadership, intro_to_python, data_analytics]"
       and model = demo_model and query = "''python programming''", OF s]
  show ?thesis using s p by simp
qed

text \<open>
  The original claim fails on its last clause. Two courses whose embeddings \<open>(1, 2\<^sup>-\<^sup>8)\<close>
  and \<open>(1, 2\<^sup>-\<^sup>9)\<close> lie close to the query \<open>(1, 0)\<close>: the index reports position 1 at the
  squared distance \<open>2\<^sup>-\<^sup>1\<^sup>8\<close> before position 0 at \<open>2\<^sup>-\<^sup>1\<^sup>6\<close>. In single precision
  \<open>2 - d\<^sup>2\<close> rounds to 2 for both, so both scores are 1: the results are tied and come in
  descending order of position, the second course before the first.
\<close>

theorem tied_scores_in_descending_position:
  "search (IndexFlatL2 [[1, 1 / 256], [1, 1 / 512]])
     (l2_normalize (demo_model ''python programming'')) 2
     = Inr ([Finite (1 / 2 ^ 18), Finite (1 / 2 ^ 16)], [1, 0])
   \<and> ret (search_faiss_index demo_model ''python programming''
            (Some (IndexFlatL2 [[1, 1 / 256], [1, 1 / 512]]))
            (Some [intro_to_python, advanced_leadership]) 2)
       = Inr [(advanced_leadership, Finite 1), (intro_to_python, Finite 1)]"
proof -
  have s: "search (IndexFlatL2 [[1, 1 / 256], [1, 1 / 512]])
             (l2_normalize (demo_model ''python programming'')) 2
           = Inr ([Finite (1 / 2 ^ 18), Finite (1 / 2 ^ 16)], [1, 0])"
    by (rule flat_search_near_duplicates_k2)
  have "similarities_of [Finite (1 / 2 ^ 18), Finite (1 / 2 ^ 16)] = [Finite 1, Finite 1]"
    using similarities_of_samples(5,6) by (simp add: similarities_of_def)
  with s show ?thesis by (simp add: search_faiss_index_def iloc_def)
qed

subsection \<open>The similarity score\<close>

text \<open>
  Claim C1. The code squares the value the index reports before applying the closed form,
  and the flat index already reports the squared distance. One stored unit vector orthogonal
  to the unit query: the index reports the squared distance 2, for which the closed form
  \<open>1 - d\<^sup>2/2\<close> gives the cosine 0; the search returns the score \<open>(2 - 2\<^sup>2)/2 = -1\<close>.
\<close>

theorem score_squares_reported_distance:
  "search (IndexFlatL2 [[0, 1]]) (l2_normalize (demo_model ''python programming'')) 1
     = Inr ([Finite (fvec_L2sqr (l2_normalize (demo_model ''python programming'')) [0, 1])], [0])
   \<and> 1 - fvec_L2sqr (l2_normalize (demo_model ''python programming'')) [0, 1] / 2 = 0
   \<and> ret (search_faiss_index demo_model ''python programming''
            (Some (IndexFlatL2 [[0, 1]])) (Some [advanced_leadership]) 1)
       = Inr [(advanced_leadership, Finite (- 1))]"
proof -
  have s: "search (IndexFlatL2 [[0, 1]]) (l2_normalize (demo_model ''python programming'')) 1
             = Inr ([Finite 2], [0])"
    by (simp add: IndexFlatL2_def IndexFlatL2_search_def fvec_L2sqr_def l2_normalize_unit
        demo_model_def)
  have d: "fvec_L2sqr (l2_normalize (demo_model ''python programming'')) [0, 1] = 2"
    by (simp add: fvec_L2sqr_def l2_normalize_unit demo_model_def)
  from s d similarities_of_samples(2) show ?thesis
    by (simp add: search_faiss_index_def iloc_def)
qed

text \<open>
  Claim C4. One stored unit vector opposite to the unit query (cosine \<open>-1\<close>): the index
  reports the squared distance 4 and the search returns the score \<open>(2 - 4\<^sup>2)/2 = -7\<close>,
  below \<open>-1 - \<epsilon>\<close> for \<open>\<epsilon> = 10\<^sup>-\<^sup>5\<close>.
\<close>

theorem score_below_minus_one:
  "ret (search_faiss_index demo_model ''python programming''
          (Some (IndexFlatL2 [[- 1, 0]])) (Some [advanced_leadership]) 1)
     = Inr [(advanced_leadership, Finite (- 7))]
   \<and> \<not> (- 1 - 1 / 100000 \<le> (- 7 :: real))"
proof -
  have s: "search (IndexFlatL2 [[- 1, 0]]) (l2_normalize (demo_model ''python programming'')) 1
             = Inr ([Finite 4], [0])"
    by (simp add: IndexFlatL2_def IndexFlatL2_search_def fvec_L2sqr_def l2_normalize_unit
        demo_model_def)
  from s similarities_of_samples(3) show ?thesis
    by (simp add: search_faiss_index_def iloc_def)
qed

subsection \<open>More results requested than courses stored\<close>

text \<open>
  With the flat index, a non-empty table and as many stored vectors as rows, every hit the
  index reports passes the test of the result loop, the filling hits included: a search for
  \<open>k > 0\<close> results returns \<open>k\<close> results, whatever the number of courses.
\<close>

lemma flat_search_shape:
  assumes "0 < k"
  shows "\<exists>D I. IndexFlatL2_search xb x k = Inr (D, I)
           \<and> length D = nat k \<and> length I = nat k
           \<and> (\<forall>i \<in> set I. - 1 \<le> i \<and> i < int (length xb))"
proof -
  let ?found = "take (nat k) (sort_key fst (zip (map (fvec_L2sqr x) xb) (map int [0..<length xb])))"
  let ?hits = "?found @ replicate (nat k - length ?found) (FLT_MAX, - 1)"
  have r: "IndexFlatL2_search xb x k = Inr (map (\<lambda>h. Finite (fst h)) ?hits, map snd ?hits)"
    using assms by (simp add: IndexFlatL2_search_def Let_def)
  have l: "length ?hits = nat k" by simp
  have "set ?found \<subseteq> set (zip (map (fvec_L2sqr x) xb) (map int [0..<length xb]))"
    using set_take_subset [of "nat k" "sort_key fst (zip (map (fvec_L2sqr x) xb) (map int [0..<length xb]))"]
    by simp
  then have f: "\<forall>i \<in> snd ` set ?found. 0 \<le> i \<and> i < int (length xb)"
    by (auto dest!: subsetD set_zip_rightD)
  have "\<forall>i \<in> set (map snd ?hits). - 1 \<le> i \<and> i < int (length xb)"
  proof
    fix i assume "i \<in> set (map snd ?hits)"
    then have "i \<in> snd ` set ?found \<or> i = - 1" by (auto simp: image_Un)
    with f show "- 1 \<le> i \<and> i < int (length xb)" by force
  qed
  with r l show ?thesis by simp
qed

lemma flat_index_returns_k_results:
  assumes "df \<noteq> []" and "length xb = length df" and "0 < k"
  shows "\<exists>recs. ret (search_faiss_index model query (Some (IndexFlatL2 xb)) (Some df) k) = Inr recs
           \<and> length recs = nat k"
proof -
  from flat_search_shape [OF assms(3), of xb "l2_normalize (model query)"] obtain D I where
    r: "IndexFlatL2_search xb (l2_normalize (model query)) k = Inr (D, I)"
    and l: "length D = nat k" "length I = nat k"
    and b: "\<forall>i \<in> set I. - 1 \<le> i \<and> i < int (length xb)"
    by blast
  let ?hits = "zip I (similarities_of D)"
  from assms(1) have n: "1 \<le> int (length df)" by (cases df) simp_all
  have "\<forall>(i, s) \<in> set ?hits. - int (length df) \<le> i"
    using b n by (force dest: set_zip_leftD)
  from prepare_results_returns [OF this, of "[]"] obtain rows where
    p: "prepare_results df ?hits [] = Inr rows"
    and a: "list_all2 (\<lambda>(c, s) (i, s'). iloc df i = Inr c \<and> s = s') rows
              (filter (\<lambda>(i, s). i < int (length df)) ?hits)"
    by auto
  have "filter (\<lambda>(i, s). i < int (length df)) ?hits = ?hits"
    using b assms(2) by (auto simp: filter_id_conv dest: set_zip_leftD)
  with a have "length rows = length ?hits" by (simp add: list_all2_lengthD)
  with l have "length rows = nat k" by (simp add: similarities_of_def)
  with p r show ?thesis by (simp add: search_faiss_index_def IndexFlatL2_def)
qed

text \<open>
  Claim C2. A recommender loaded with two courses, asked for \<open>k = 3\<close> results: the flat
  index fills the third hit with the position \<open>-1\<close>, the test \<^verbatim>\<open>idx < len(df)\<close> accepts it,
  and three results are returned, the last row twice. (The score of the filling entry is
  minus infinity: the square of the largest \<^verbatim>\<open>float32\<close> overflows.)
\<close>

theorem three_results_for_two_courses:
  "ret (get_recommendations demo_model
          (init \<lparr>course_index_faiss = Stored (IndexFlatL2 [[1, 0], [0, 1]]),
                 processed_courses_csv = Stored [intro_to_python, advanced_leadership]\<rparr>)
          ''python programming'' 3)
     = Inr [(intro_to_python, Finite 1), (advanced_leadership, Finite (- 1)),
            (advanced_leadership, MinusInf)]"
proof -
  have "similarities_of [Finite 0, Finite 2, Finite FLT_MAX] = [Finite 1, Finite (- 1), MinusInf]"
    using similarities_of_samples(1,2,4) by (simp add: similarities_of_def)
  then show ?thesis
    by (simp add: get_recommendations_def init_def load_faiss_index_def read_index_def
        read_csv_def search_faiss_index_def flat_search_two_courses_k3 iloc_def)
qed

subsection \<open>Loading the persisted pair\<close>

text \<open>
  Claim C3, as the code has it. \<^verbatim>\<open>load_faiss_index\<close> returns the stored index and the
  stored table when both artifacts can be read, and \<^verbatim>\<open>(None, None)\<close> in every other case,
  an artifact missing or unreadable: never one of the two alone. The row counts of the two
  are not compared.
\<close>

theorem load_returns_both_or_neither:
  "load_faiss_index fs =
     (case (course_index_faiss fs, processed_courses_csv fs) of
        (Stored ix, Stored d) \<Rightarrow> (Some ix, Some d)
      | _ \<Rightarrow> (None, None))
   \<and> (fst (load_faiss_index fs) = None) = (snd (load_faiss_index fs) = None)"
  by (simp add: load_faiss_index_def read_index_def read_csv_def split: artifact.splits)

text \<open>
  An index of two vectors and a table of one row are loaded and returned as a pair: no
  failure is reported for the differing row counts.
\<close>

theorem load_accepts_mismatched_row_counts:
  "load_faiss_index
     \<lparr>course_index_faiss = Stored (IndexFlatL2 [[1, 0], [0, 1]]),
      processed_courses_csv = Stored [intro_to_python]\<rparr>
     = (Some (IndexFlatL2 [[1, 0], [0, 1]]), Some [intro_to_python])
   \<and> ntotal (IndexFlatL2 [[1, 0], [0, 1]]) = 2
   \<and> length [intro_to_python] = 1"
  by (simp add: load_faiss_index_def read_index_def read_csv_def IndexFlatL2_def)

subsection \<open>Readiness\<close>

text \<open>
  Claim C7, as the code has it. \<^verbatim>\<open>is_ready\<close> is true exactly when the index and the table
  are both loaded (neither is \<^verbatim>\<open>None\<close>); after construction, exactly when both artifacts
  could be read. The number of entries of either plays no part.
\<close>

theorem is_ready_iff_loaded:
  "is_ready self = (self_index self \<noteq> None \<and> self_df self \<noteq> None)
   \<and> is_ready (init fs)
       = (\<exists>ix d. course_index_faiss fs = Stored ix \<and> processed_courses_csv fs = Stored d)"
  by (simp add: is_ready_def init_def load_faiss_index_def read_index_def read_csv_def
      split: artifact.splits)

text \<open>A recommender loaded with an index of zero vectors and a table of zero rows is ready.\<close>

theorem is_ready_with_empty_index_and_table:
  "is_ready (init \<lparr>course_index_faiss = Stored (IndexFlatL2 []),
                    processed_courses_csv = Stored []\<rparr>)
   \<and> ntotal (IndexFlatL2 []) = 0
   \<and> length ([] :: dataframe) = 0"
  by (simp add: is_ready_def init_def load_faiss_index_def read_index_def read_csv_def
      IndexFlatL2_def)

text \<open>
  Claim C8, as the code has it. When \<^verbatim>\<open>is_ready\<close> is false, \<^verbatim>\<open>get_recommendations\<close> does
  not fail: it prints the line saying that the recommender is not properly initialized and
  returns the empty list, for every query and every \<open>k\<close>.
\<close>

theorem not_ready_returns_empty_list:
  assumes "\<not> is_ready self"
  shows "get_recommendations model self query top_k
           = \<lparr>stdout = [Not_properly_initialized], ret = Inr []\<rparr>"
  using assms by (auto simp: get_recommendations_def is_ready_def)

theorem not_ready_returns_empty_list_witness:
  "\<not> is_ready (init \<lparr>course_index_faiss = Missing, processed_courses_csv = Missing\<rparr>)
   \<and> get_recommendations demo_model
        (init \<lparr>course_index_faiss = Missing, processed_courses_csv = Missing\<rparr>)
        ''python programming'' 10
       = \<lparr>stdout = [Not_properly_initialized], ret = Inr []\<rparr>"
proof -
  have n: "\<not> is_ready (init \<lparr>course_index_faiss = Missing, processed_courses_csv = Missing\<rparr>)"
    by (simp add: is_ready_def init_def load_faiss_index_def read_index_def)
  from not_ready_returns_empty_list [OF n] n show ?thesis by simp
qed

text \<open>
  The value returned carries no mark of the condition: a recommender that is not ready and
  a ready one whose search keeps no hit (here the table has no row for the one position
  reported) both return the empty list.
\<close>

theorem not_ready_and_no_match_return_the_same:
  "\<not> is_ready (init \<lparr>course_index_faiss = Missing, processed_courses_csv = Missing\<rparr>)
   \<and> is_ready (init \<lparr>course_index_faiss = Stored (IndexFlatL2 [[1, 0]]),
                      processed_courses_csv = Stored []\<rparr>)
   \<and> ret (get_recommendations demo_model
            (init \<lparr>course_index_faiss = Missing, processed_courses_csv = Missing\<rparr>)
            ''python programming'' 1) = Inr []
   \<and> ret (get_recommendations demo_model
            (init \<lparr>course_index_faiss = Stored (IndexFlatL2 [[1, 0]]),
                   processed_courses_csv = Stored []\<rparr>)
            ''python programming'' 1) = Inr []"
  by (simp add: get_recommendations_def is_ready_def init_def load_faiss_index_def read_index_def
      read_csv_def search_faiss_index_def IndexFlatL2_def IndexFlatL2_search_def fvec_L2sqr_def
      l2_normalize_unit demo_model_def similarities_of_def)

subsection \<open>Empty results\<close>

text \<open>
  Claim C9, as the code has it. \<^verbatim>\<open>search_faiss_index\<close> returns the empty list when the
  index or the table is \<^verbatim>\<open>None\<close>, and when the index reports no position below the length
  of the table (in particular when it reports no hit at all). It has no test of its own on
  \<open>k\<close> or on the number of stored vectors: \<open>k\<close> goes unchanged to the index, and an
  exception raised by the index's search is raised by \<^verbatim>\<open>search_faiss_index\<close>.
\<close>

theorem search_returns_empty_list_when:
  "(index = None \<or> df = None \<longrightarrow>
      ret (search_faiss_index model query index df top_k) = Inr [])
   \<and> (search ix (l2_normalize (model query)) top_k = Inl e \<longrightarrow>
        ret (search_faiss_index model query (Some ix) (Some d) top_k) = Inl e)
   \<and> (search ix (l2_normalize (model query)) top_k = Inr (D, I)
        \<and> (\<forall>i \<in> set I. int (length d) \<le> i) \<longrightarrow>
        ret (search_faiss_index model query (Some ix) (Some d) top_k) = Inr [])"
proof (intro conjI impI)
  assume "index = None \<or> df = None"
  then show "ret (search_faiss_index model query index df top_k) = Inr []"
    by (auto simp: search_faiss_index_def split: option.splits)
next
  assume "search ix (l2_normalize (model query)) top_k = Inl e"
  then show "ret (search_faiss_index model query (Some ix) (Some d) top_k) = Inl e"
    by (simp add: search_faiss_index_def)
next
  assume a: "search ix (l2_normalize (model query)) top_k = Inr (D, I)
        \<and> (\<forall>i \<in> set I. int (length d) \<le> i)"
  have "\<forall>(i, s) \<in> set hits. int (length d) \<le> i \<Longrightarrow> prepare_results d hits acc = Inr acc"
    for hits acc
    by (induction hits arbitrary: acc) auto
  moreover from a have "\<forall>(i, s) \<in> set (zip I (similarities_of D)). int (length d) \<le> i"
    by (auto dest: set_zip_leftD)
  ultimately have "prepare_results d (zip I (similarities_of D)) [] = Inr []" by blast
  with a show "ret (search_faiss_index model query (Some ix) (Some d) top_k) = Inr []"
    by (simp add: search_faiss_index_def)
qed

theorem search_returns_empty_list_when_witness:
  "ret (search_faiss_index demo_model ''python programming'' None (Some [intro_to_python]) 10)
     = Inr []
   \<and> search (IndexFlatL2 [[1, 0]]) (l2_normalize (demo_model ''python programming'')) (- 1)
       = Inl AssertionError
   \<and> ret (search_faiss_index demo_model ''python programming''
            (Some (IndexFlatL2 [[1, 0]])) (Some [intro_to_python]) (- 1)) = Inl AssertionError
   \<and> search (IndexFlatL2 [[1, 0]]) (l2_normalize (demo_model ''python programming'')) 1
       = Inr ([Finite 0], [0])
   \<and> ret (search_faiss_index demo_model ''python programming''
            (Some (IndexFlatL2 [[1, 0]])) (Some []) 1) = Inr []"
proof -
  have 1: "search (IndexFlatL2 [[1, 0]]) (l2_normalize (demo_model ''python programming'')) (- 1)
       = Inl AssertionError"
    by (simp add: IndexFlatL2_def IndexFlatL2_search_def)
  have 2: "search (IndexFlatL2 [[1, 0]]) (l2_normalize (demo_model ''python programming'')) 1
       = Inr ([Finite 0], [0])"
    by (simp add: IndexFlatL2_def IndexFlatL2_search_def fvec_L2sqr_def l2_normalize_unit
        demo_model_def)
  note t = search_returns_empty_list_when
    [where model = demo_model and query = "''python programming''"
       and ix = "IndexFlatL2 [[1, 0]]"]
  from t [where index = None and df = "Some [intro_to_python]" and top_k = 10]
  have a: "ret (search_faiss_index demo_model ''python programming'' None
                  (Some [intro_to_python]) 10) = Inr []"
    by simp
  from t [where top_k = "- 1" and e = AssertionError and d = "[intro_to_python]"] 1
  have b: "ret (search_faiss_index demo_model ''python programming''
            (Some (IndexFlatL2 [[1, 0]])) (Some [intro_to_python]) (- 1)) = Inl AssertionError"
    by simp
  from t [where top_k = 1 and D = "[Finite 0]" and I = "[0]" and d = "[]"] 2
  have c: "ret (search_faiss_index demo_model ''python programming''
            (Some (IndexFlatL2 [[1, 0]])) (Some []) 1) = Inr []"
    by simp
  from a b c 1 2 show ?thesis by simp
qed

text \<open>
  With the flat index the search raises instead of returning the empty list, both for an
  index of zero vectors (with an empty table and \<open>k = 1\<close>) and for \<open>k = -1\<close>.
\<close>

theorem search_raises_for_empty_index_and_for_negative_k:
  "ntotal (IndexFlatL2 []) = 0
   \<and> ret (search_faiss_index demo_model ''python programming''
            (Some (IndexFlatL2 [])) (Some []) 1) = Inl IndexError
   \<and> ret (search_faiss_index demo_model ''python programming''
            (Some (IndexFlatL2 [[1, 0]])) (Some [intro_to_python]) (- 1)) = Inl AssertionError"
  by (simp add: search_faiss_index_def IndexFlatL2_def IndexFlatL2_search_def fvec_L2sqr_def
      l2_normalize_unit demo_model_def similarities_of_def iloc_def)

subsection \<open>The price column\<close>

text \<open>
  Claim C6. The character class deletes every hyphen and every slash of the text, not only
  a trailing \<^verbatim>\<open>/-\<close>. For the price text \<^verbatim>\<open>10-20\<close> the code hands \<^verbatim>\<open>1020\<close> to the parser
  and the price is 1020, where removing only commas and a trailing \<^verbatim>\<open>/-\<close> leaves a text
  that is no number, hence the price 0. The texts \<^verbatim>\<open>1,000/-\<close> and \<^verbatim>\<open>5000\<close> yield 1000
  and 5000. A value that pandas inferred as a number and that \<^verbatim>\<open>str\<close> renders as
  \<^verbatim>\<open>1e-05\<close> loses its hyphen too: the parser is handed \<^verbatim>\<open>1e05\<close>.
\<close>

theorem clean_price_joins_a_price_range:
  "clean_price to_numeric_decimal to_str (Text (codepoints ''10-20'')) = 1020
   \<and> spec_clean_price to_numeric_decimal (Some (codepoints ''10-20'')) = 0
   \<and> clean_price to_numeric_decimal to_str (Text (codepoints ''1,000/-'')) = 1000
   \<and> clean_price to_numeric_decimal to_str (Text (codepoints ''5000'')) = 5000
   \<and> clean_price to_numeric (\<lambda>v. codepoints ''1e-05'') (Value v)
       = (case to_numeric (codepoints ''1e05'') of None \<Rightarrow> 0 | Some p \<Rightarrow> p)"
  by (simp add: clean_price_def spec_clean_price_def strip_trailing_slash_dash_def
      str_strip_def isspace_def to_numeric_decimal_def codepoints_def)

end
